theory Spec2Isabelle
  imports Complex_Main
begin

section \<open>Market data records (bar.hpp, order.hpp, simulator.hpp)\<close>

text \<open>
  The C++ type \<^verbatim>\<open>double\<close> is modelled by \<^typ>\<open>real\<close>: arithmetic is exact, rounding,
  infinities and NaN are not represented. \<^verbatim>\<open>std::string\<close> is \<^typ>\<open>string\<close>,
  \<^verbatim>\<open>std::vector\<close> is a list, \<^verbatim>\<open>push_back\<close> appends at the end.
\<close>

record Bar =
  timestamp :: string
  "open" :: real
  high :: real
  low :: real
  close :: real
  volume :: real

datatype Side = Long | Short

datatype OrderType = Market | Limit

record Order =
  side :: Side
  quantity :: real
  otype :: OrderType
  limit_price :: real

text \<open>The default member initialisers of \<^verbatim>\<open>struct Order\<close>.\<close>

definition Order_default :: Order where
  "Order_default = \<lparr>side = Long, quantity = 0, otype = Market, limit_price = 0\<rparr>"

record Trade =
  entry_time :: string
  exit_time :: string
  tside :: Side
  tquantity :: real
  entry_price :: real
  exit_price :: real
  pnl :: real
  pnl_pct :: real

section \<open>The execution ledger (class Simulator)\<close>

text \<open>
  The private members of \<^verbatim>\<open>class Simulator\<close> as declared in simulator.hpp, without the
  trailing underscore. The accessors \<^verbatim>\<open>position()\<close>, \<^verbatim>\<open>cash()\<close>, \<^verbatim>\<open>equity()\<close>,
  \<^verbatim>\<open>lastClose()\<close>, \<^verbatim>\<open>avgEntryPrice()\<close>, \<^verbatim>\<open>trades()\<close> and \<^verbatim>\<open>equityCurve()\<close> are the
  field selectors \<open>position\<close>, \<open>cash\<close>, \<open>equity\<close>, \<open>last_close\<close>, \<open>avg_entry\<close>,
  \<open>trades\<close> and \<open>equity_curve\<close>.
\<close>

record Simulator =
  initial_cash :: real
  commission :: real
  slippage :: real
  cash :: real
  position :: real
  avg_entry :: real
  equity :: real
  last_close :: real
  pending_order :: Order
  has_pending :: bool
  trades :: "Trade list"
  equity_curve :: "real list"
  last_bar_time :: string

definition POSITION_ZERO_EPS :: real where
  "POSITION_ZERO_EPS = 1 / 1000000000"

text \<open>
  The constructor. simulator.hpp declares three parameters
  \<^verbatim>\<open>(initial_cash, commission_per_trade, slippage_fraction)\<close> and \<^verbatim>\<open>Backtester\<close> passes all
  three; the definition in the source initialises every member below except
  \<^verbatim>\<open>slippage_\<close>. The model stores the third argument in \<open>slippage\<close>, the reading most
  favourable to the code; no function of the ledger reads that field.
\<close>

definition Simulator_init :: "real \<Rightarrow> real \<Rightarrow> real \<Rightarrow> Simulator" where
  "Simulator_init initial_cash' commission_per_trade slippage_fraction =
     \<lparr>initial_cash = initial_cash',
      commission = commission_per_trade,
      slippage = slippage_fraction,
      cash = initial_cash',
      position = 0,
      avg_entry = 0,
      equity = initial_cash',
      last_close = 0,
      pending_order = Order_default,
      has_pending = False,
      trades = [],
      equity_curve = [],
      last_bar_time = []\<rparr>"

definition placeOrder :: "Simulator \<Rightarrow> Side \<Rightarrow> real \<Rightarrow> Simulator" where
  "placeOrder s sd qty =
     (if qty \<le> 0 then s
      else s\<lparr>pending_order := (pending_order s)\<lparr>side := sd, quantity := qty, otype := Market\<rparr>,
             has_pending := True\<rparr>)"

text \<open>
  \<^verbatim>\<open>processOrders\<close>, first block (``Close or reduce opposite position first''), entered
  when the order's side is opposite to the sign of the position. The result is the ledger
  after the block, the quantity that remains, and whether the block left the function
  through its early \<^verbatim>\<open>return\<close>. The division in \<^verbatim>\<open>pnl_pct\<close> is by
  \<^verbatim>\<open>entry_price * close_qty\<close> with \<^verbatim>\<open>entry_price\<close> checked against 0; \<^verbatim>\<open>close_qty\<close> is
  positive for every order that \<^verbatim>\<open>placeOrder\<close> accepts, since the position is not 0 here.
  No property below depends on \<^verbatim>\<open>pnl_pct\<close>.
\<close>

definition close_or_reduce :: "Simulator \<Rightarrow> Bar \<Rightarrow> Simulator \<times> real \<times> bool" where
  "close_or_reduce s bar =
     (let fill_price = open bar;
          qty = quantity (pending_order s);
          sd = side (pending_order s);
          close_qty = min qty \<bar>position s\<bar>;
          pnl' = (if sd = Long then (avg_entry s - fill_price) * close_qty
                  else (fill_price - avg_entry s) * close_qty);
          s1 = s\<lparr>cash := cash s + (pnl' - commission s)\<rparr>;
          s2 = s1\<lparr>equity := cash s1 + position s1 * fill_price\<rparr>;
          t = \<lparr>entry_time = last_bar_time s2,
               exit_time = timestamp bar,
               tside = (if position s2 > 0 then Long else Short),
               tquantity = close_qty,
               entry_price = avg_entry s2,
               exit_price = fill_price,
               pnl = pnl' - commission s2,
               pnl_pct = (if avg_entry s2 \<noteq> 0
                          then ((pnl' - commission s2) / (avg_entry s2 * close_qty)) * 100
                          else 0)\<rparr>;
          s3 = s2\<lparr>trades := trades s2 @ [t]\<rparr>;
          p = (if position s3 > 0 then position s3 - close_qty else position s3 + close_qty);
          s4 = s3\<lparr>position := (if \<bar>p\<bar> < POSITION_ZERO_EPS then 0 else p)\<rparr>;
          qty' = qty - close_qty
      in if qty' \<le> 0
         then (s4\<lparr>has_pending := False, last_bar_time := timestamp bar\<rparr>, qty', True)
         else (if \<bar>position s4\<bar> < POSITION_ZERO_EPS then s4\<lparr>avg_entry := 0\<rparr> else s4,
               qty', False))"

text \<open>
  \<^verbatim>\<open>processOrders\<close>, second block (``Open or add to position''), entered with the
  remaining quantity when it is positive.
\<close>

definition open_or_add :: "Simulator \<Rightarrow> Bar \<Rightarrow> Side \<Rightarrow> real \<Rightarrow> Simulator" where
  "open_or_add s bar sd qty =
     (let fill_price = open bar;
          cost = (if sd = Short then - (fill_price * qty) else fill_price * qty);
          s1 = s\<lparr>cash := cash s - (cost - commission s)\<rparr>
      in if position s1 = 0
         then s1\<lparr>avg_entry := fill_price,
                 position := (if sd = Long then qty else - qty)\<rparr>
         else (let total_qty = \<bar>position s1\<bar> + qty
               in s1\<lparr>avg_entry := (avg_entry s1 * \<bar>position s1\<bar> + fill_price * qty) / total_qty,
                      position := position s1 + (if sd = Long then qty else - qty)\<rparr>))"

definition processOrders :: "Simulator \<Rightarrow> Bar \<Rightarrow> Simulator" where
  "processOrders s bar =
     (if \<not> has_pending s then s
      else
        let qty = quantity (pending_order s);
            sd = side (pending_order s);
            (s1, qty1, returned) =
               (if (sd = Long \<and> position s < 0) \<or> (sd = Short \<and> position s > 0)
                then close_or_reduce s bar
                else (s, qty, False))
        in if returned then s1
           else (let s2 = (if qty1 > 0 then open_or_add s1 bar sd qty1 else s1)
                 in s2\<lparr>has_pending := False, last_bar_time := timestamp bar\<rparr>))"

definition updateEquity :: "Simulator \<Rightarrow> Bar \<Rightarrow> Simulator" where
  "updateEquity s bar =
     (let s1 = s\<lparr>last_close := close bar\<rparr>;
          s2 = s1\<lparr>equity := cash s1 + position s1 * close bar\<rparr>;
          s3 = s2\<lparr>equity_curve := equity_curve s2 @ [equity s2]\<rparr>
      in s3\<lparr>last_bar_time := timestamp bar\<rparr>)"

section \<open>The strategy bridge (IContext, BacktestContext) and the strategy interface\<close>

text \<open>
  What a strategy can read through \<^verbatim>\<open>IContext\<close>: \<^verbatim>\<open>position()\<close>, \<^verbatim>\<open>equity()\<close>,
  \<^verbatim>\<open>cash()\<close>, \<^verbatim>\<open>lastClose()\<close>, \<^verbatim>\<open>barIndex()\<close> and \<^verbatim>\<open>bars()\<close>. \<^verbatim>\<open>BacktestContext\<close>
  answers the first four from the ledger it is bound to, the last two from its own members.
\<close>

record IContext =
  ctx_position :: real
  ctx_equity :: real
  ctx_cash :: real
  ctx_lastClose :: real
  ctx_barIndex :: nat
  ctx_bars :: "Bar list"

definition BacktestContext :: "Simulator \<Rightarrow> Bar list \<Rightarrow> nat \<Rightarrow> IContext" where
  "BacktestContext s bars bar_index' =
     \<lparr>ctx_position = position s,
      ctx_equity = equity s,
      ctx_cash = cash s,
      ctx_lastClose = last_close s,
      ctx_barIndex = bar_index',
      ctx_bars = bars\<rparr>"

text \<open>
  \<^verbatim>\<open>IStrategy\<close> is the capability set \<^verbatim>\<open>onStart\<close>, \<^verbatim>\<open>onBar\<close>, \<^verbatim>\<open>onEnd\<close> over the
  strategy object's own state \<open>'st\<close>. The only effect a hook has on the engine is the
  sequence of \<^verbatim>\<open>ctx.placeOrder(side, quantity)\<close> calls it makes, and nothing it can read
  through the context changes while it runs (\<^verbatim>\<open>placeOrder\<close> writes the pending-order slot
  only), so a hook is a function from what it reads to its new state and the list of its
  \<^verbatim>\<open>placeOrder\<close> calls, in order.
\<close>

record 'st IStrategy =
  onStart :: "IContext \<Rightarrow> 'st \<Rightarrow> 'st \<times> (Side \<times> real) list"
  onBar :: "Bar \<Rightarrow> IContext \<Rightarrow> 'st \<Rightarrow> 'st \<times> (Side \<times> real) list"
  onEnd :: "IContext \<Rightarrow> 'st \<Rightarrow> 'st \<times> (Side \<times> real) list"

text \<open>\<^verbatim>\<open>BacktestContext::placeOrder\<close> delegates each call to the ledger.\<close>

fun place_orders :: "Simulator \<Rightarrow> (Side \<times> real) list \<Rightarrow> Simulator" where
  "place_orders s [] = s"
| "place_orders s ((sd, qty) # rest) = place_orders (placeOrder s sd qty) rest"

section \<open>The orchestrator (class Backtester)\<close>

text \<open>
  The calls that \<^verbatim>\<open>Backtester::run\<close> makes on the strategy and on the ledger; the number
  is the loop index \<open>i\<close> of the bar \<^verbatim>\<open>data_.at(i)\<close> that the call receives.
\<close>

datatype call = OnStart | ProcessOrders nat | OnBar nat | UpdateEquity nat | OnEnd

text \<open>
  The members of \<^verbatim>\<open>class Backtester\<close> that \<^verbatim>\<open>run\<close> reads or writes: the strategy object
  (its state), the bars held by \<^verbatim>\<open>data_\<close>, \<^verbatim>\<open>initial_cash_\<close>, the ledger \<^verbatim>\<open>*sim_\<close>, the
  bar index of \<^verbatim>\<open>*ctx_\<close>, \<^verbatim>\<open>stopped_early_\<close> and \<^verbatim>\<open>stop_reason_\<close>. The field \<open>calls\<close>
  is not a member: it records, in order, the calls that \<^verbatim>\<open>run\<close> has made, so that
  statements about which calls happen, and in which order, can be written down.
\<close>

record 'st Backtester =
  strategy_state :: 'st
  data :: "Bar list"
  bt_initial_cash :: real
  sim :: Simulator
  bar_index :: nat
  stopped_early :: bool
  stop_reason :: string
  calls :: "call list"

definition Backtester_init :: "'st \<Rightarrow> real \<Rightarrow> real \<Rightarrow> real \<Rightarrow> 'st Backtester" where
  "Backtester_init strategy0 initial_cash' commission' slippage' =
     \<lparr>strategy_state = strategy0,
      data = [],
      bt_initial_cash = initial_cash',
      sim = Simulator_init initial_cash' commission' slippage',
      bar_index = 0,
      stopped_early = False,
      stop_reason = [],
      calls = []\<rparr>"

text \<open>
  The body of the \<^verbatim>\<open>for\<close> loop of \<^verbatim>\<open>run\<close> for the index \<open>i\<close>, with the local
  \<^verbatim>\<open>peak_equity\<close> passed in and out. The third component of the result tells whether the
  body left the loop through \<^verbatim>\<open>break\<close>. The loop enters the body only with
  \<open>i < length (data bt)\<close>, so \<^verbatim>\<open>data_.at(i)\<close> is in range and is \<open>data bt ! i\<close>; the
  division is guarded by \<^verbatim>\<open>peak_equity > 0\<close> as in the source.
\<close>

definition bar_step ::
  "'st IStrategy \<Rightarrow> nat \<Rightarrow> real \<Rightarrow> 'st Backtester \<Rightarrow> 'st Backtester \<times> real \<times> bool" where
  "bar_step strat i peak_equity bt =
     (let bar = data bt ! i;
          bt1 = bt\<lparr>bar_index := i\<rparr>;
          bt2 = bt1\<lparr>sim := processOrders (sim bt1) bar, calls := calls bt1 @ [ProcessOrders i]\<rparr>;
          eq_after_fill = cash (sim bt2) + position (sim bt2) * open bar
      in if eq_after_fill \<le> 0
         then (bt2\<lparr>stopped_early := True,
                   stop_reason := ''no more equity'',
                   sim := updateEquity (sim bt2) bar,
                   calls := calls bt2 @ [UpdateEquity i]\<rparr>,
               peak_equity, True)
         else
           (let (st', placed) =
                  onBar strat bar (BacktestContext (sim bt2) (data bt2) (bar_index bt2))
                    (strategy_state bt2);
                bt3 = bt2\<lparr>strategy_state := st',
                          sim := place_orders (sim bt2) placed,
                          calls := calls bt2 @ [OnBar i]\<rparr>;
                bt4 = bt3\<lparr>sim := updateEquity (sim bt3) bar, calls := calls bt3 @ [UpdateEquity i]\<rparr>;
                eq = equity (sim bt4);
                peak_equity' = (if eq > peak_equity then eq else peak_equity);
                drawdown_pct = (if peak_equity' > 0
                                then (peak_equity' - eq) / peak_equity' * 100 else 100)
            in if eq \<le> 0
               then (bt4\<lparr>stopped_early := True, stop_reason := ''no more equity''\<rparr>,
                     peak_equity', True)
               else if drawdown_pct \<ge> 100
               then (bt4\<lparr>stopped_early := True, stop_reason := ''max drawdown 100%''\<rparr>,
                     peak_equity', True)
               else (bt4, peak_equity', False)))"

text \<open>
  The \<^verbatim>\<open>for\<close> loop from index \<open>i\<close> on: it ends when \<open>i\<close> reaches \<^verbatim>\<open>data_.size()\<close> or
  when the body breaks.
\<close>

function run_loop :: "'st IStrategy \<Rightarrow> nat \<Rightarrow> real \<Rightarrow> 'st Backtester \<Rightarrow> 'st Backtester" where
  "run_loop strat i peak_equity bt =
     (if i < length (data bt)
      then (case bar_step strat i peak_equity bt of
              (bt', peak_equity', stop) \<Rightarrow>
                if stop then bt' else run_loop strat (Suc i) peak_equity' bt')
      else bt)"
  by pat_completeness auto

lemma bar_step_data: "bar_step strat i peak_equity bt = (bt', peak_equity', stop) \<Longrightarrow> data bt' = data bt"
  by (auto simp: bar_step_def Let_def split: if_splits prod.splits)

termination run_loop
  by (relation "measure (\<lambda>(strat, i, peak_equity, bt). length (data bt) - i)")
     (auto dest!: bar_step_data [OF sym])

text \<open>
  \<^verbatim>\<open>Backtester::run\<close>, in three parts. \<open>run_start\<close> is the code between the check of
  the loaded data and the loop: \<^verbatim>\<open>data_.aggregateBars(bar_resolution_)\<close>, which is the
  argument \<open>aggregateBars\<close>, the creation of the context (bar index 0) and
  \<^verbatim>\<open>strategy_->onStart(*ctx_)\<close>. \<open>run_end\<close> is \<^verbatim>\<open>strategy_->onEnd(*ctx_)\<close> after the loop.
\<close>

definition run_start ::
  "'st IStrategy \<Rightarrow> (Bar list \<Rightarrow> Bar list) \<Rightarrow> 'st Backtester \<Rightarrow> 'st Backtester" where
  "run_start strat aggregateBars bt =
     (let bt1 = bt\<lparr>data := aggregateBars (data bt)\<rparr>;
          bt2 = bt1\<lparr>bar_index := 0\<rparr>;
          (st', placed) =
            onStart strat (BacktestContext (sim bt2) (data bt2) (bar_index bt2))
              (strategy_state bt2)
      in bt2\<lparr>strategy_state := st',
              sim := place_orders (sim bt2) placed,
              calls := calls bt2 @ [OnStart]\<rparr>)"

definition run_end :: "'st IStrategy \<Rightarrow> 'st Backtester \<Rightarrow> 'st Backtester" where
  "run_end strat bt =
     (let (st', placed) =
            onEnd strat (BacktestContext (sim bt) (data bt) (bar_index bt)) (strategy_state bt)
      in bt\<lparr>strategy_state := st',
             sim := place_orders (sim bt) placed,
             calls := calls bt @ [OnEnd]\<rparr>)"

text \<open>
  The two loaders of \<^verbatim>\<open>DataSource\<close> read files; their outcome is the argument \<open>load\<close>:
  the returned flag and the bars that \<^verbatim>\<open>data_\<close> then holds. The result of \<open>run\<close> is the
  returned flag and the orchestrator afterwards.
\<close>

definition run ::
  "'st IStrategy \<Rightarrow> bool \<times> Bar list \<Rightarrow> (Bar list \<Rightarrow> Bar list) \<Rightarrow> 'st Backtester
     \<Rightarrow> bool \<times> 'st Backtester" where
  "run strat load aggregateBars bt =
     (let (ok, loaded) = load;
          bt0 = bt\<lparr>data := loaded\<rparr>
      in if \<not> ok \<or> data bt0 = [] then (False, bt0)
         else
           (let bt1 = run_start strat aggregateBars bt0;
                peak_equity = bt_initial_cash bt1;
                bt2 = run_loop strat 0 peak_equity bt1
            in (True, run_end strat bt2)))"

section \<open>Notions used to state the properties\<close>

text \<open>
  The state of the loop at the head of iteration \<open>i\<close>, when the loop started with
  \<open>peak_equity0\<close> and \<open>bt0\<close> gets that far: \<open>None\<close> when an earlier iteration left the
  loop or the bars ran out first.
\<close>

primrec loop_head ::
  "'st IStrategy \<Rightarrow> real \<Rightarrow> 'st Backtester \<Rightarrow> nat \<Rightarrow> (real \<times> 'st Backtester) option" where
  "loop_head strat peak_equity0 bt0 0 = Some (peak_equity0, bt0)"
| "loop_head strat peak_equity0 bt0 (Suc i) =
     (case loop_head strat peak_equity0 bt0 i of
        None \<Rightarrow> None
      | Some (peak_equity, bt) \<Rightarrow>
          if i < length (data bt)
          then (case bar_step strat i peak_equity bt of
                  (bt', peak_equity', stop) \<Rightarrow> if stop then None else Some (peak_equity', bt'))
          else None)"

text \<open>The pending order of a ledger, if there is one.\<close>

definition pending :: "Simulator \<Rightarrow> (Side \<times> real) option" where
  "pending s =
     (if has_pending s then Some (side (pending_order s), quantity (pending_order s)) else None)"


text \<open>
  The number of bars processed: the number of loop iterations entered, each of which
  begins with its \<^verbatim>\<open>processOrders\<close> call. Likewise the number of \<^verbatim>\<open>updateEquity\<close>
  calls.
\<close>

fun is_ProcessOrders :: "call \<Rightarrow> bool" where
  "is_ProcessOrders (ProcessOrders i) = True"
| "is_ProcessOrders c = False"

fun is_UpdateEquity :: "call \<Rightarrow> bool" where
  "is_UpdateEquity (UpdateEquity i) = True"
| "is_UpdateEquity c = False"

definition bars_processed :: "call list \<Rightarrow> nat" where
  "bars_processed cs = length (filter is_ProcessOrders cs)"

definition updateEquity_calls :: "call list \<Rightarrow> nat" where
  "updateEquity_calls cs = length (filter is_UpdateEquity cs)"

section \<open>Example runs\<close>

text \<open>
  Strategies and bars for concrete runs. \<open>short_and_hold\<close> sells 10 short on the first
  bar; \<open>short_then_cover\<close> also buys the 10 back on the second bar.
\<close>

definition short_and_hold :: "unit IStrategy" where
  "short_and_hold =
     \<lparr>onStart = (\<lambda>ctx st. (st, [])),
      onBar = (\<lambda>bar ctx st. (st, if ctx_barIndex ctx = 0 then [(Short, 10)] else [])),
      onEnd = (\<lambda>ctx st. (st, []))\<rparr>"

definition short_then_cover :: "unit IStrategy" where
  "short_then_cover =
     \<lparr>onStart = (\<lambda>ctx st. (st, [])),
      onBar = (\<lambda>bar ctx st.
                 (st, if ctx_barIndex ctx = 0 then [(Short, 10)]
                      else if ctx_barIndex ctx = 1 then [(Long, 10)] else [])),
      onEnd = (\<lambda>ctx st. (st, []))\<rparr>"

definition example_bar :: "string \<Rightarrow> real \<Rightarrow> real \<Rightarrow> Bar" where
  "example_bar t o' c =
     \<lparr>timestamp = t, open = o', high = max o' c, low = min o' c, close = c, volume = 0\<rparr>"

text \<open>Four bars; the price gaps up from 100 to 200 at the open of the third.\<close>

definition gap_up_bars :: "Bar list" where
  "gap_up_bars =
     [example_bar ''09:30'' 100 100, example_bar ''09:31'' 100 100,
      example_bar ''09:32'' 200 200, example_bar ''09:33'' 200 200]"


text \<open>
  A ledger that started with cash 100, is short 10 from a fill at 100 and has a pending
  order to buy the 10 back; and an orchestrator about to process the third of four bars,
  which opens at 150, with that ledger.
\<close>

definition short_ledger :: Simulator where
  "short_ledger =
     updateEquity
       (placeOrder
          (processOrders (placeOrder (Simulator_init 100 0 0) Short 10)
             (example_bar ''09:31'' 100 100))
          Long 10)
       (example_bar ''09:31'' 100 100)"

definition squeeze_backtester :: "unit Backtester" where
  "squeeze_backtester =
     (Backtester_init () 100 0 0)
       \<lparr>data := [example_bar ''09:30'' 100 100, example_bar ''09:31'' 100 100,
                 example_bar ''09:32'' 150 150, example_bar ''09:33'' 150 150],
        sim := short_ledger\<rparr>"

section \<open>Facts about the ledger operations\<close>

lemma close_or_reduce_equity_curve:
  "equity_curve (fst (close_or_reduce s bar)) = equity_curve s"
  by (simp add: close_or_reduce_def Let_def)


lemma open_or_add_frame:
  "equity_curve (open_or_add s bar sd q) = equity_curve s"
  "equity (open_or_add s bar sd q) = equity s"
  "trades (open_or_add s bar sd q) = trades s"
  by (simp_all add: open_or_add_def Let_def)


lemma processOrders_equity_curve: "equity_curve (processOrders s bar) = equity_curve s"
proof (cases "close_or_reduce s bar")
  case (fields s1 qty1 returned)
  then show ?thesis
    using close_or_reduce_equity_curve [of s bar]
    by (simp add: processOrders_def Let_def open_or_add_frame)
qed




lemma placeOrder_frame:
  "cash (placeOrder s sd q) = cash s"
  "position (placeOrder s sd q) = position s"
  "avg_entry (placeOrder s sd q) = avg_entry s"
  "equity (placeOrder s sd q) = equity s"
  "last_close (placeOrder s sd q) = last_close s"
  "trades (placeOrder s sd q) = trades s"
  "equity_curve (placeOrder s sd q) = equity_curve s"
  "last_bar_time (placeOrder s sd q) = last_bar_time s"
  "commission (placeOrder s sd q) = commission s"
  by (simp_all add: placeOrder_def)

lemma place_orders_frame:
  "cash (place_orders s placed) = cash s"
  "position (place_orders s placed) = position s"
  "avg_entry (place_orders s placed) = avg_entry s"
  "equity (place_orders s placed) = equity s"
  "last_close (place_orders s placed) = last_close s"
  "trades (place_orders s placed) = trades s"
  "equity_curve (place_orders s placed) = equity_curve s"
  "last_bar_time (place_orders s placed) = last_bar_time s"
  "commission (place_orders s placed) = commission s"
  by (induction s placed rule: place_orders.induct; simp add: placeOrder_frame)+





lemma updateEquity_fields:
  "cash (updateEquity s bar) = cash s"
  "position (updateEquity s bar) = position s"
  "avg_entry (updateEquity s bar) = avg_entry s"
  "trades (updateEquity s bar) = trades s"
  "pending_order (updateEquity s bar) = pending_order s"
  "has_pending (updateEquity s bar) = has_pending s"
  "equity (updateEquity s bar) = cash s + position s * close bar"
  "equity_curve (updateEquity s bar) = equity_curve s @ [cash s + position s * close bar]"
  by (simp_all add: updateEquity_def Let_def)



lemma processOrders_opposite:
  assumes "has_pending s"
    and "(side (pending_order s) = Long \<and> position s < 0) \<or>
         (side (pending_order s) = Short \<and> position s > 0)"
  shows "processOrders s bar =
           (if snd (snd (close_or_reduce s bar)) then fst (close_or_reduce s bar)
            else (if fst (snd (close_or_reduce s bar)) > 0
                  then open_or_add (fst (close_or_reduce s bar)) bar (side (pending_order s))
                         (fst (snd (close_or_reduce s bar)))
                  else fst (close_or_reduce s bar))
                 \<lparr>has_pending := False, last_bar_time := timestamp bar\<rparr>)"
  using assms by (cases "close_or_reduce s bar") (simp add: processOrders_def Let_def)

lemma close_or_reduce_equity:
  "equity (fst (close_or_reduce s bar)) =
     cash s
     + ((if side (pending_order s) = Long
         then (avg_entry s - open bar) * min (quantity (pending_order s)) \<bar>position s\<bar>
         else (open bar - avg_entry s) * min (quantity (pending_order s)) \<bar>position s\<bar>)
        - commission s)
     + position s * open bar"
  by (simp add: close_or_reduce_def Let_def)


lemma close_or_reduce_exact:
  assumes "quantity (pending_order s) = \<bar>position s\<bar>"
  shows "snd (snd (close_or_reduce s bar))"
    and "position (fst (close_or_reduce s bar)) = 0"
    and "cash (fst (close_or_reduce s bar)) =
           cash s
           + ((if side (pending_order s) = Long
               then (avg_entry s - open bar) * min (quantity (pending_order s)) \<bar>position s\<bar>
               else (open bar - avg_entry s) * min (quantity (pending_order s)) \<bar>position s\<bar>)
              - commission s)"
  using assms by (simp_all add: close_or_reduce_def Let_def POSITION_ZERO_EPS_def)



lemma processOrders_close_leg_equity:
  assumes "has_pending s"
    and "(side (pending_order s) = Long \<and> position s < 0) \<or>
         (side (pending_order s) = Short \<and> position s > 0)"
  shows "equity (processOrders s bar) =
     cash s
     + ((if side (pending_order s) = Long
         then (avg_entry s - open bar) * min (quantity (pending_order s)) \<bar>position s\<bar>
         else (open bar - avg_entry s) * min (quantity (pending_order s)) \<bar>position s\<bar>)
        - commission s)
     + position s * open bar"
  by (simp add: processOrders_opposite [OF assms] close_or_reduce_equity open_or_add_frame)


section \<open>Facts about the loop\<close>

lemma bar_step_ruin:
  assumes "cash (processOrders (sim bt) (data bt ! i))
             + position (processOrders (sim bt) (data bt ! i)) * open (data bt ! i) \<le> 0"
  shows "bar_step strat i peak_equity bt =
           (bt\<lparr>bar_index := i,
               sim := updateEquity (processOrders (sim bt) (data bt ! i)) (data bt ! i),
               stopped_early := True,
               stop_reason := ''no more equity'',
               calls := calls bt @ [ProcessOrders i, UpdateEquity i]\<rparr>,
            peak_equity, True)"
  using assms by (simp add: bar_step_def Let_def)

lemma bar_step_no_ruin:
  assumes "\<not> cash (processOrders (sim bt) (data bt ! i))
             + position (processOrders (sim bt) (data bt ! i)) * open (data bt ! i) \<le> 0"
    and "onBar strat (data bt ! i)
           (BacktestContext (processOrders (sim bt) (data bt ! i)) (data bt) i)
           (strategy_state bt) = (st', placed)"
  shows "bar_step strat i peak_equity bt =
           (let bt4 = bt\<lparr>bar_index := i,
                         strategy_state := st',
                         sim := updateEquity
                                  (place_orders (processOrders (sim bt) (data bt ! i)) placed)
                                  (data bt ! i),
                         calls := calls bt @ [ProcessOrders i, OnBar i, UpdateEquity i]\<rparr>;
                eq = equity (sim bt4);
                peak_equity' = (if eq > peak_equity then eq else peak_equity);
                drawdown_pct = (if peak_equity' > 0
                                then (peak_equity' - eq) / peak_equity' * 100 else 100)
            in if eq \<le> 0
               then (bt4\<lparr>stopped_early := True, stop_reason := ''no more equity''\<rparr>,
                     peak_equity', True)
               else if drawdown_pct \<ge> 100
               then (bt4\<lparr>stopped_early := True, stop_reason := ''max drawdown 100%''\<rparr>,
                     peak_equity', True)
               else (bt4, peak_equity', False))"
  using assms by (simp add: bar_step_def Let_def)

lemma bar_step_frame:
  "bar_index (fst (bar_step strat i peak_equity bt)) = i"
  "data (fst (bar_step strat i peak_equity bt)) = data bt"
  "bt_initial_cash (fst (bar_step strat i peak_equity bt)) = bt_initial_cash bt"
  by (simp_all add: bar_step_def Let_def split: prod.splits)

lemma bar_step_stop:
  assumes "snd (snd (bar_step strat i peak_equity bt))"
  shows "stopped_early (fst (bar_step strat i peak_equity bt))"
    and "stop_reason (fst (bar_step strat i peak_equity bt)) = ''no more equity'' \<or>
         stop_reason (fst (bar_step strat i peak_equity bt)) = ''max drawdown 100%''"
proof -
  let ?ruin = "cash (processOrders (sim bt) (data bt ! i))
             + position (processOrders (sim bt) (data bt ! i)) * open (data bt ! i) \<le> 0"
  obtain st' placed where hook: "onBar strat (data bt ! i)
           (BacktestContext (processOrders (sim bt) (data bt ! i)) (data bt) i)
           (strategy_state bt) = (st', placed)"
    by (cases "onBar strat (data bt ! i)
           (BacktestContext (processOrders (sim bt) (data bt ! i)) (data bt) i)
           (strategy_state bt)")
  show "stopped_early (fst (bar_step strat i peak_equity bt))"
  proof (cases ?ruin)
    case True
    then show ?thesis by (simp add: bar_step_ruin)
  next
    case False
    with assms show ?thesis
      by (simp add: bar_step_no_ruin [OF False hook] Let_def split: if_splits)
  qed
  show "stop_reason (fst (bar_step strat i peak_equity bt)) = ''no more equity'' \<or>
         stop_reason (fst (bar_step strat i peak_equity bt)) = ''max drawdown 100%''"
  proof (cases ?ruin)
    case True
    then show ?thesis by (simp add: bar_step_ruin)
  next
    case False
    with assms show ?thesis
      by (simp add: bar_step_no_ruin [OF False hook] Let_def split: if_splits)
  qed
qed

lemma bar_step_continue:
  assumes "\<not> snd (snd (bar_step strat i peak_equity bt))"
    and "onBar strat (data bt ! i)
           (BacktestContext (processOrders (sim bt) (data bt ! i)) (data bt) i)
           (strategy_state bt) = (st', placed)"
  shows "\<not> cash (processOrders (sim bt) (data bt ! i))
             + position (processOrders (sim bt) (data bt ! i)) * open (data bt ! i) \<le> 0"
    and "fst (bar_step strat i peak_equity bt) =
           bt\<lparr>bar_index := i,
               strategy_state := st',
               sim := updateEquity
                        (place_orders (processOrders (sim bt) (data bt ! i)) placed)
                        (data bt ! i),
               calls := calls bt @ [ProcessOrders i, OnBar i, UpdateEquity i]\<rparr>"
proof -
  show no_ruin: "\<not> cash (processOrders (sim bt) (data bt ! i))
             + position (processOrders (sim bt) (data bt ! i)) * open (data bt ! i) \<le> 0"
    using assms(1) by (auto simp: bar_step_ruin)
  show "fst (bar_step strat i peak_equity bt) =
           bt\<lparr>bar_index := i,
               strategy_state := st',
               sim := updateEquity
                        (place_orders (processOrders (sim bt) (data bt ! i)) placed)
                        (data bt ! i),
               calls := calls bt @ [ProcessOrders i, OnBar i, UpdateEquity i]\<rparr>"
    using assms(1)
    by (simp add: bar_step_no_ruin [OF no_ruin assms(2)] Let_def split: if_splits)
qed

declare run_loop.simps [simp del]

lemma run_loop_end: "\<not> i < length (data bt) \<Longrightarrow> run_loop strat i peak_equity bt = bt"
  by (simp add: run_loop.simps)

lemma run_loop_stop:
  "i < length (data bt) \<Longrightarrow> snd (snd (bar_step strat i peak_equity bt)) \<Longrightarrow>
   run_loop strat i peak_equity bt = fst (bar_step strat i peak_equity bt)"
  by (cases "bar_step strat i peak_equity bt") (simp add: run_loop.simps [of strat i])

lemma run_loop_continue:
  "i < length (data bt) \<Longrightarrow> \<not> snd (snd (bar_step strat i peak_equity bt)) \<Longrightarrow>
   run_loop strat i peak_equity bt =
     run_loop strat (Suc i) (fst (snd (bar_step strat i peak_equity bt)))
       (fst (bar_step strat i peak_equity bt))"
  by (cases "bar_step strat i peak_equity bt") (simp add: run_loop.simps [of strat i])

text \<open>
  Induction along the loop: a relation between the state at the head of an iteration and
  the final state holds if it holds when the loop ends there, when the body breaks, and
  when it is carried back over a body that does not break.
\<close>

lemma run_loop_induct_rel:
  assumes end_case: "\<And>i peak_equity bt. \<not> i < length (data bt) \<Longrightarrow> Q i bt bt"
    and stop_case: "\<And>i peak_equity bt.
           i < length (data bt) \<Longrightarrow> snd (snd (bar_step strat i peak_equity bt)) \<Longrightarrow>
           Q i bt (fst (bar_step strat i peak_equity bt))"
    and continue_case: "\<And>i peak_equity bt r.
           i < length (data bt) \<Longrightarrow> \<not> snd (snd (bar_step strat i peak_equity bt)) \<Longrightarrow>
           Q (Suc i) (fst (bar_step strat i peak_equity bt)) r \<Longrightarrow> Q i bt r"
  shows "Q i bt (run_loop strat i peak_equity bt)"
proof (induction n \<equiv> "length (data bt) - i" arbitrary: i peak_equity bt)
  case 0
  then have "\<not> i < length (data bt)" by simp
  then show ?case using end_case [of i bt] by (simp add: run_loop_end)
next
  case (Suc n)
  then have more: "i < length (data bt)" by simp
  show ?case
  proof (cases "snd (snd (bar_step strat i peak_equity bt))")
    case True
    then show ?thesis using stop_case [OF more True] more by (simp add: run_loop_stop)
  next
    case False
    have "n = length (data (fst (bar_step strat i peak_equity bt))) - Suc i"
      using Suc.hyps(2) by (simp add: bar_step_frame)
    then have "Q (Suc i) (fst (bar_step strat i peak_equity bt))
              (run_loop strat (Suc i) (fst (snd (bar_step strat i peak_equity bt)))
                 (fst (bar_step strat i peak_equity bt)))"
      by (rule Suc.hyps(1))
    then show ?thesis
      using continue_case [OF more False] more False by (simp add: run_loop_continue)
  qed
qed

lemma loop_head_run_loop:
  "loop_head strat peak_equity0 bt0 i = Some (peak_equity, bt) \<Longrightarrow>
   run_loop strat 0 peak_equity0 bt0 = run_loop strat i peak_equity bt"
proof (induction i arbitrary: peak_equity bt)
  case 0
  then show ?case by simp
next
  case (Suc i)
  from Suc.prems obtain p b where
    head: "loop_head strat peak_equity0 bt0 i = Some (p, b)" and
    more: "i < length (data b)" and
    step: "bar_step strat i p b = (bt, peak_equity, False)"
    by (auto split: option.splits if_splits prod.splits)
  have "run_loop strat 0 peak_equity0 bt0 = run_loop strat i p b"
    by (rule Suc.IH [OF head])
  also have "\<dots> = run_loop strat (Suc i) peak_equity bt"
    using more step by (simp add: run_loop_continue)
  finally show ?case .
qed



lemma bar_step_cases [consumes 0, case_names ruin no_ruin]:
  assumes "cash (processOrders (sim bt) (data bt ! i))
             + position (processOrders (sim bt) (data bt ! i)) * open (data bt ! i) \<le> 0 \<Longrightarrow>
           bar_step strat i peak_equity bt =
           (bt\<lparr>bar_index := i,
               sim := updateEquity (processOrders (sim bt) (data bt ! i)) (data bt ! i),
               stopped_early := True,
               stop_reason := ''no more equity'',
               calls := calls bt @ [ProcessOrders i, UpdateEquity i]\<rparr>,
            peak_equity, True) \<Longrightarrow> P"
    and "\<And>st' placed stop_flags peak_equity'.
           fst (bar_step strat i peak_equity bt) =
             (bt\<lparr>bar_index := i,
                 strategy_state := st',
                 sim := updateEquity
                          (place_orders (processOrders (sim bt) (data bt ! i)) placed)
                          (data bt ! i),
                 calls := calls bt @ [ProcessOrders i, OnBar i, UpdateEquity i]\<rparr>)
               \<lparr>stopped_early := fst stop_flags, stop_reason := snd stop_flags\<rparr> \<Longrightarrow> P"
  shows P
proof (cases "cash (processOrders (sim bt) (data bt ! i))
             + position (processOrders (sim bt) (data bt ! i)) * open (data bt ! i) \<le> 0")
  case True
  then show ?thesis using assms(1) bar_step_ruin [OF True] by blast
next
  case False
  obtain st' placed where hook: "onBar strat (data bt ! i)
           (BacktestContext (processOrders (sim bt) (data bt ! i)) (data bt) i)
           (strategy_state bt) = (st', placed)"
    by (cases "onBar strat (data bt ! i)
           (BacktestContext (processOrders (sim bt) (data bt ! i)) (data bt) i)
           (strategy_state bt)")
  let ?bt4 = "bt\<lparr>bar_index := i,
                 strategy_state := st',
                 sim := updateEquity
                          (place_orders (processOrders (sim bt) (data bt ! i)) placed)
                          (data bt ! i),
                 calls := calls bt @ [ProcessOrders i, OnBar i, UpdateEquity i]\<rparr>"
  have "\<exists>flags. fst (bar_step strat i peak_equity bt) =
          ?bt4\<lparr>stopped_early := fst flags, stop_reason := snd flags\<rparr>"
  proof (cases "snd (snd (bar_step strat i peak_equity bt))")
    case stop: True
    have "fst (bar_step strat i peak_equity bt) =
            ?bt4\<lparr>stopped_early := True, stop_reason := ''no more equity''\<rparr> \<or>
          fst (bar_step strat i peak_equity bt) =
            ?bt4\<lparr>stopped_early := True, stop_reason := ''max drawdown 100%''\<rparr>"
      using stop by (simp add: bar_step_no_ruin [OF False hook] Let_def split: if_splits)
    then show ?thesis
      by (metis fst_conv snd_conv)
  next
    case continue: False
    have "fst (bar_step strat i peak_equity bt) = ?bt4"
      by (rule bar_step_continue(2) [OF continue hook])
    then have "fst (bar_step strat i peak_equity bt) =
            ?bt4\<lparr>stopped_early := fst (stopped_early bt, stop_reason bt),
                 stop_reason := snd (stopped_early bt, stop_reason bt)\<rparr>"
      by simp
    then show ?thesis by blast
  qed
  then show ?thesis using assms(2) by blast
qed

lemma bar_step_equity_curve:
  "equity_curve (sim (fst (bar_step strat i peak_equity bt))) =
     equity_curve (sim bt) @
       [cash (sim (fst (bar_step strat i peak_equity bt)))
          + position (sim (fst (bar_step strat i peak_equity bt))) * close (data bt ! i)]"
  by (cases rule: bar_step_cases [of bt i strat peak_equity])
     (simp_all add: updateEquity_fields place_orders_frame processOrders_equity_curve)

lemma bar_step_equity:
  "equity (sim (fst (bar_step strat i peak_equity bt))) =
     cash (sim (fst (bar_step strat i peak_equity bt)))
       + position (sim (fst (bar_step strat i peak_equity bt))) * close (data bt ! i)"
  by (cases rule: bar_step_cases [of bt i strat peak_equity])
     (simp_all add: updateEquity_fields place_orders_frame)


lemma bar_step_counts:
  "bars_processed (calls (fst (bar_step strat i peak_equity bt))) = Suc (bars_processed (calls bt))"
  "updateEquity_calls (calls (fst (bar_step strat i peak_equity bt))) =
     Suc (updateEquity_calls (calls bt))"
  by (cases rule: bar_step_cases [of bt i strat peak_equity];
      simp add: bars_processed_def updateEquity_calls_def)+

lemma bar_step_continue_flags:
  assumes "\<not> snd (snd (bar_step strat i peak_equity bt))"
  shows "stopped_early (fst (bar_step strat i peak_equity bt)) = stopped_early bt"
    and "stop_reason (fst (bar_step strat i peak_equity bt)) = stop_reason bt"
proof -
  obtain st' placed where hook: "onBar strat (data bt ! i)
           (BacktestContext (processOrders (sim bt) (data bt ! i)) (data bt) i)
           (strategy_state bt) = (st', placed)"
    by (cases "onBar strat (data bt ! i)
           (BacktestContext (processOrders (sim bt) (data bt ! i)) (data bt) i)
           (strategy_state bt)")
  show "stopped_early (fst (bar_step strat i peak_equity bt)) = stopped_early bt"
    and "stop_reason (fst (bar_step strat i peak_equity bt)) = stop_reason bt"
    by (simp_all add: bar_step_continue(2) [OF assms hook])
qed

lemma run_loop_data: "data (run_loop strat i peak_equity bt) = data bt"
  by (rule run_loop_induct_rel [where Q = "\<lambda>i bt r. data r = data bt"])
     (simp_all add: bar_step_frame)

lemma run_loop_counts:
  "length (equity_curve (sim (run_loop strat i peak_equity bt))) + bars_processed (calls bt) =
     length (equity_curve (sim bt)) + bars_processed (calls (run_loop strat i peak_equity bt)) \<and>
   length (equity_curve (sim (run_loop strat i peak_equity bt))) + updateEquity_calls (calls bt) =
     length (equity_curve (sim bt)) + updateEquity_calls (calls (run_loop strat i peak_equity bt))"
proof (rule run_loop_induct_rel
    [where Q = "\<lambda>i bt r.
       length (equity_curve (sim r)) + bars_processed (calls bt) =
         length (equity_curve (sim bt)) + bars_processed (calls r) \<and>
       length (equity_curve (sim r)) + updateEquity_calls (calls bt) =
         length (equity_curve (sim bt)) + updateEquity_calls (calls r)"])
  fix i :: nat and peak_equity :: real and bt :: "'a Backtester"
  show "length (equity_curve (sim bt)) + bars_processed (calls bt) =
         length (equity_curve (sim bt)) + bars_processed (calls bt) \<and>
       length (equity_curve (sim bt)) + updateEquity_calls (calls bt) =
         length (equity_curve (sim bt)) + updateEquity_calls (calls bt)"
    by simp
next
  fix i :: nat and peak_equity :: real and bt :: "'a Backtester"
  have "length (equity_curve (sim (fst (bar_step strat i peak_equity bt)))) =
          Suc (length (equity_curve (sim bt)))"
    by (subst bar_step_equity_curve) simp
  then show "length (equity_curve (sim (fst (bar_step strat i peak_equity bt))))
           + bars_processed (calls bt) =
         length (equity_curve (sim bt))
           + bars_processed (calls (fst (bar_step strat i peak_equity bt))) \<and>
       length (equity_curve (sim (fst (bar_step strat i peak_equity bt))))
           + updateEquity_calls (calls bt) =
         length (equity_curve (sim bt))
           + updateEquity_calls (calls (fst (bar_step strat i peak_equity bt)))"
    by (simp add: bar_step_counts)
next
  fix i :: nat and peak_equity :: real and bt r :: "'a Backtester"
  assume "length (equity_curve (sim r))
            + bars_processed (calls (fst (bar_step strat i peak_equity bt))) =
          length (equity_curve (sim (fst (bar_step strat i peak_equity bt))))
            + bars_processed (calls r) \<and>
          length (equity_curve (sim r))
            + updateEquity_calls (calls (fst (bar_step strat i peak_equity bt))) =
          length (equity_curve (sim (fst (bar_step strat i peak_equity bt))))
            + updateEquity_calls (calls r)"
  moreover have "length (equity_curve (sim (fst (bar_step strat i peak_equity bt)))) =
          Suc (length (equity_curve (sim bt)))"
    by (subst bar_step_equity_curve) simp
  ultimately show "length (equity_curve (sim r)) + bars_processed (calls bt) =
         length (equity_curve (sim bt)) + bars_processed (calls r) \<and>
       length (equity_curve (sim r)) + updateEquity_calls (calls bt) =
         length (equity_curve (sim bt)) + updateEquity_calls (calls r)"
    by (simp add: bar_step_counts)
qed

lemma run_loop_curve_bound:
  "length (equity_curve (sim (run_loop strat i peak_equity bt)))
     \<le> length (equity_curve (sim bt)) + (length (data bt) - i) \<and>
   (length (equity_curve (sim (run_loop strat i peak_equity bt)))
     < length (equity_curve (sim bt)) + (length (data bt) - i)
    \<longrightarrow> stopped_early (run_loop strat i peak_equity bt))"
proof (rule run_loop_induct_rel
    [where Q = "\<lambda>i bt r.
       length (equity_curve (sim r)) \<le> length (equity_curve (sim bt)) + (length (data bt) - i) \<and>
       (length (equity_curve (sim r)) < length (equity_curve (sim bt)) + (length (data bt) - i)
        \<longrightarrow> stopped_early r)"])
  fix i :: nat and peak_equity :: real and bt :: "'a Backtester"
  assume "\<not> i < length (data bt)"
  then show "length (equity_curve (sim bt))
        \<le> length (equity_curve (sim bt)) + (length (data bt) - i) \<and>
       (length (equity_curve (sim bt)) < length (equity_curve (sim bt)) + (length (data bt) - i)
        \<longrightarrow> stopped_early bt)"
    by simp
next
  fix i :: nat and peak_equity :: real and bt :: "'a Backtester"
  assume more: "i < length (data bt)" and stop: "snd (snd (bar_step strat i peak_equity bt))"
  have "length (equity_curve (sim (fst (bar_step strat i peak_equity bt)))) =
          Suc (length (equity_curve (sim bt)))"
    by (subst bar_step_equity_curve) simp
  then show "length (equity_curve (sim (fst (bar_step strat i peak_equity bt))))
        \<le> length (equity_curve (sim bt)) + (length (data bt) - i) \<and>
       (length (equity_curve (sim (fst (bar_step strat i peak_equity bt))))
          < length (equity_curve (sim bt)) + (length (data bt) - i)
        \<longrightarrow> stopped_early (fst (bar_step strat i peak_equity bt)))"
    using more bar_step_stop(1) [OF stop] by simp
next
  fix i :: nat and peak_equity :: real and bt r :: "'a Backtester"
  assume more: "i < length (data bt)"
    and "length (equity_curve (sim r))
           \<le> length (equity_curve (sim (fst (bar_step strat i peak_equity bt))))
              + (length (data (fst (bar_step strat i peak_equity bt))) - Suc i) \<and>
         (length (equity_curve (sim r))
            < length (equity_curve (sim (fst (bar_step strat i peak_equity bt))))
              + (length (data (fst (bar_step strat i peak_equity bt))) - Suc i)
          \<longrightarrow> stopped_early r)"
  moreover have "length (equity_curve (sim (fst (bar_step strat i peak_equity bt)))) =
          Suc (length (equity_curve (sim bt)))"
    by (subst bar_step_equity_curve) simp
  moreover have "Suc (length (equity_curve (sim bt))) + (length (data bt) - Suc i) =
          length (equity_curve (sim bt)) + (length (data bt) - i)"
    using more by simp
  ultimately show "length (equity_curve (sim r))
        \<le> length (equity_curve (sim bt)) + (length (data bt) - i) \<and>
       (length (equity_curve (sim r)) < length (equity_curve (sim bt)) + (length (data bt) - i)
        \<longrightarrow> stopped_early r)"
    by (simp add: bar_step_frame)
qed

lemma run_loop_stopped:
  "stopped_early (run_loop strat i peak_equity bt) \<longrightarrow> stopped_early bt \<or>
     ((stop_reason (run_loop strat i peak_equity bt) = ''no more equity'' \<or>
       stop_reason (run_loop strat i peak_equity bt) = ''max drawdown 100%'') \<and>
      equity_curve (sim (run_loop strat i peak_equity bt)) \<noteq> [] \<and>
      last (equity_curve (sim (run_loop strat i peak_equity bt))) =
        cash (sim (run_loop strat i peak_equity bt))
          + position (sim (run_loop strat i peak_equity bt))
            * close (data bt ! bar_index (run_loop strat i peak_equity bt)) \<and>
      length (equity_curve (sim (run_loop strat i peak_equity bt))) + i =
        length (equity_curve (sim bt)) + Suc (bar_index (run_loop strat i peak_equity bt)))"
proof (rule run_loop_induct_rel
    [where Q = "\<lambda>i bt r. stopped_early r \<longrightarrow> stopped_early bt \<or>
       ((stop_reason r = ''no more equity'' \<or> stop_reason r = ''max drawdown 100%'') \<and>
        equity_curve (sim r) \<noteq> [] \<and>
        last (equity_curve (sim r)) =
          cash (sim r) + position (sim r) * close (data bt ! bar_index r) \<and>
        length (equity_curve (sim r)) + i = length (equity_curve (sim bt)) + Suc (bar_index r))"])
  fix i :: nat and peak_equity :: real and bt :: "'a Backtester"
  show "stopped_early bt \<longrightarrow> stopped_early bt \<or>
       ((stop_reason bt = ''no more equity'' \<or> stop_reason bt = ''max drawdown 100%'') \<and>
        equity_curve (sim bt) \<noteq> [] \<and>
        last (equity_curve (sim bt)) =
          cash (sim bt) + position (sim bt) * close (data bt ! bar_index bt) \<and>
        length (equity_curve (sim bt)) + i = length (equity_curve (sim bt)) + Suc (bar_index bt))"
    by simp
next
  fix i :: nat and peak_equity :: real and bt :: "'a Backtester"
  assume stop: "snd (snd (bar_step strat i peak_equity bt))"
  let ?r = "fst (bar_step strat i peak_equity bt)"
  have "equity_curve (sim ?r) =
          equity_curve (sim bt) @ [cash (sim ?r) + position (sim ?r) * close (data bt ! i)]"
    by (rule bar_step_equity_curve)
  then have "equity_curve (sim ?r) \<noteq> [] \<and>
      last (equity_curve (sim ?r)) = cash (sim ?r) + position (sim ?r) * close (data bt ! i) \<and>
      length (equity_curve (sim ?r)) = Suc (length (equity_curve (sim bt)))"
    by (metis Nil_is_append_conv last_snoc length_append_singleton not_Cons_self2)
  then show "stopped_early ?r \<longrightarrow> stopped_early bt \<or>
       ((stop_reason ?r = ''no more equity'' \<or> stop_reason ?r = ''max drawdown 100%'') \<and>
        equity_curve (sim ?r) \<noteq> [] \<and>
        last (equity_curve (sim ?r)) =
          cash (sim ?r) + position (sim ?r) * close (data bt ! bar_index ?r) \<and>
        length (equity_curve (sim ?r)) + i = length (equity_curve (sim bt)) + Suc (bar_index ?r))"
    using bar_step_stop(2) [OF stop] by (simp add: bar_step_frame)
next
  fix i :: nat and peak_equity :: real and bt r :: "'a Backtester"
  assume continue: "\<not> snd (snd (bar_step strat i peak_equity bt))"
  let ?b = "fst (bar_step strat i peak_equity bt)"
  assume "stopped_early r \<longrightarrow> stopped_early ?b \<or>
       ((stop_reason r = ''no more equity'' \<or> stop_reason r = ''max drawdown 100%'') \<and>
        equity_curve (sim r) \<noteq> [] \<and>
        last (equity_curve (sim r)) =
          cash (sim r) + position (sim r) * close (data ?b ! bar_index r) \<and>
        length (equity_curve (sim r)) + Suc i = length (equity_curve (sim ?b)) + Suc (bar_index r))"
  moreover have "length (equity_curve (sim ?b)) = Suc (length (equity_curve (sim bt)))"
    by (subst bar_step_equity_curve) simp
  ultimately show "stopped_early r \<longrightarrow> stopped_early bt \<or>
       ((stop_reason r = ''no more equity'' \<or> stop_reason r = ''max drawdown 100%'') \<and>
        equity_curve (sim r) \<noteq> [] \<and>
        last (equity_curve (sim r)) =
          cash (sim r) + position (sim r) * close (data bt ! bar_index r) \<and>
        length (equity_curve (sim r)) + i = length (equity_curve (sim bt)) + Suc (bar_index r))"
    using bar_step_continue_flags(1) [OF continue] by (simp add: bar_step_frame)
qed

section \<open>Facts about the start and the end of a run\<close>

lemma run_start_frame:
  "data (run_start strat aggregateBars bt) = aggregateBars (data bt)"
  "bt_initial_cash (run_start strat aggregateBars bt) = bt_initial_cash bt"
  "stopped_early (run_start strat aggregateBars bt) = stopped_early bt"
  "stop_reason (run_start strat aggregateBars bt) = stop_reason bt"
  "calls (run_start strat aggregateBars bt) = calls bt @ [OnStart]"
  "equity_curve (sim (run_start strat aggregateBars bt)) = equity_curve (sim bt)"
  by (simp_all add: run_start_def Let_def place_orders_frame split: prod.splits)

lemma run_end_frame:
  "data (run_end strat bt) = data bt"
  "bar_index (run_end strat bt) = bar_index bt"
  "stopped_early (run_end strat bt) = stopped_early bt"
  "stop_reason (run_end strat bt) = stop_reason bt"
  "calls (run_end strat bt) = calls bt @ [OnEnd]"
  "equity_curve (sim (run_end strat bt)) = equity_curve (sim bt)"
  "equity (sim (run_end strat bt)) = equity (sim bt)"
  "cash (sim (run_end strat bt)) = cash (sim bt)"
  "position (sim (run_end strat bt)) = position (sim bt)"
  by (simp_all add: run_end_def Let_def place_orders_frame split: prod.splits)

lemma run_loaded:
  "ok \<Longrightarrow> loaded \<noteq> [] \<Longrightarrow>
   run strat (ok, loaded) aggregateBars bt =
     (True, run_end strat
              (run_loop strat 0 (bt_initial_cash bt)
                 (run_start strat aggregateBars (bt\<lparr>data := loaded\<rparr>))))"
  by (simp add: run_def Let_def run_start_frame)

section \<open>Facts about the example runs\<close>

lemmas example_defs =
  short_and_hold_def short_then_cover_def example_bar_def gap_up_bars_def
  Backtester_init_def run_start_def run_end_def bar_step_def BacktestContext_def
  processOrders_def close_or_reduce_def open_or_add_def placeOrder_def
  Simulator_init_def Order_default_def updateEquity_def POSITION_ZERO_EPS_def

lemma gap_up_run_head:
  "\<exists>peak_equity bti.
     loop_head short_and_hold (bt_initial_cash (Backtester_init () 100 0 0 :: unit Backtester))
       (run_start short_and_hold id ((Backtester_init () 100 0 0)\<lparr>data := gap_up_bars\<rparr>))
       (Suc (Suc 0)) = Some (peak_equity, bti) \<and>
     Suc (Suc 0) < length (data bti) \<and>
     cash (processOrders (sim bti) (data bti ! Suc (Suc 0)))
       + position (processOrders (sim bti) (data bti ! Suc (Suc 0)))
         * open (data bti ! Suc (Suc 0)) \<le> 0 \<and>
     calls bti = [OnStart, ProcessOrders 0, OnBar 0, UpdateEquity 0,
                  ProcessOrders 1, OnBar 1, UpdateEquity 1] \<and>
     equity_curve (sim bti) = [100, 100] \<and>
     cash (processOrders (sim bti) (data bti ! Suc (Suc 0)))
       + position (processOrders (sim bti) (data bti ! Suc (Suc 0)))
         * close (data bti ! Suc (Suc 0)) = - 900"
  by (simp add: example_defs Let_def)

lemma gap_up_run_result:
  "equity_curve (sim (snd (run short_and_hold (True, gap_up_bars) id
       (Backtester_init () 100 0 0)))) = [100, 100, - 900] \<and>
   length (data (snd (run short_and_hold (True, gap_up_bars) id
       (Backtester_init () 100 0 0)))) = 4"
  by (simp add: run_def run_loop.simps example_defs Let_def)


section \<open>Properties of the ledger\<close>

lemmas ledger_defs =
  processOrders_def close_or_reduce_def open_or_add_def placeOrder_def
  Simulator_init_def Order_default_def updateEquity_def POSITION_ZERO_EPS_def

lemma short_ledger_state:
  "has_pending short_ledger \<and> side (pending_order short_ledger) = Long \<and>
   quantity (pending_order short_ledger) = 10 \<and> position short_ledger = - 10 \<and>
   cash short_ledger = 1100 \<and> avg_entry short_ledger = 100 \<and> commission short_ledger = 0"
  by (simp add: short_ledger_def ledger_defs example_bar_def Let_def)

text \<open>
  Claim C5 (scenario A of the test \<^verbatim>\<open>run_simulator_long_trade\<close>). With initial cash
  10000, no commission and no slippage, a Long 10 order processed on a bar that opens at
  100 gives position 10 and cash 9000; a Short 10 order then processed on a bar that opens
  at 102 gives position 0, cash 9020 and exactly one trade, whose pnl is 20. The bars are
  arbitrary apart from their open, and the result is the same whether or not
  \<^verbatim>\<open>updateEquity\<close> is called on the first bar in between, as the test does.
\<close>

theorem scenario_A_long_trade:
  "let s0 = Simulator_init 10000 0 0;
       s1 = processOrders (placeOrder s0 Long 10) (bar1\<lparr>open := 100\<rparr>);
       s2 = processOrders (placeOrder s1 Short 10) (bar2\<lparr>open := 102\<rparr>);
       s2' = processOrders (placeOrder (updateEquity s1 (bar1\<lparr>open := 100\<rparr>)) Short 10)
               (bar2\<lparr>open := 102\<rparr>)
   in position s1 = 10 \<and> cash s1 = 9000 \<and>
      position s2 = 0 \<and> cash s2 = 9020 \<and> length (trades s2) = 1 \<and> pnl (hd (trades s2)) = 20 \<and>
      position s2' = 0 \<and> cash s2' = 9020 \<and> length (trades s2') = 1 \<and> pnl (hd (trades s2')) = 20"
  by (simp add: ledger_defs Let_def)

text \<open>
  Claim C10 (frame of \<^verbatim>\<open>updateEquity\<close>). For every ledger and bar, \<^verbatim>\<open>updateEquity\<close>
  sets the last close to the bar's close, the equity to cash + position * close, appends
  that one value to the equity curve and records the bar's timestamp; cash, position,
  average entry price, the trade log and the pending-order slot (as well as the
  construction-time configuration) are unchanged.
\<close>

theorem updateEquity_frame:
  "last_close (updateEquity s bar) = close bar \<and>
   equity (updateEquity s bar) = cash s + position s * close bar \<and>
   equity_curve (updateEquity s bar) = equity_curve s @ [cash s + position s * close bar] \<and>
   last_bar_time (updateEquity s bar) = timestamp bar \<and>
   cash (updateEquity s bar) = cash s \<and>
   position (updateEquity s bar) = position s \<and>
   avg_entry (updateEquity s bar) = avg_entry s \<and>
   trades (updateEquity s bar) = trades s \<and>
   pending_order (updateEquity s bar) = pending_order s \<and>
   has_pending (updateEquity s bar) = has_pending s \<and>
   initial_cash (updateEquity s bar) = initial_cash s \<and>
   commission (updateEquity s bar) = commission s \<and>
   slippage (updateEquity s bar) = slippage s \<and>
   updateEquity s bar =
     s\<lparr>last_close := close bar,
       equity := cash s + position s * close bar,
       equity_curve := equity_curve s @ [cash s + position s * close bar],
       last_bar_time := timestamp bar\<rparr>"
  by (simp add: updateEquity_def Let_def)

text \<open>
  Claim C1 (slippage), evaluated on the code. With slippage fraction 1/100 (scenario C of
  the test \<^verbatim>\<open>run_simulator_slippage\<close>), a Long 10 order on a bar opening at 100 fills
  at 100, not at 101: cash is 9000 and the average entry is 100. The closing Short 10
  order on a bar opening at 102 fills at 102, not at 100.98: the trade records entry price
  100, exit price 102 and pnl 20. The fill price is the bar's open whatever the slippage.
\<close>

theorem processOrders_fill_without_slippage:
  "let s0 = Simulator_init 10000 0 (1 / 100);
       s1 = processOrders (placeOrder s0 Long 10) (bar1\<lparr>open := 100\<rparr>);
       s2 = processOrders (placeOrder s1 Short 10) (bar2\<lparr>open := 102\<rparr>)
   in slippage s1 = 1 / 100 \<and> position s1 = 10 \<and> avg_entry s1 = 100 \<and> cash s1 = 9000 \<and>
      length (trades s2) = 1 \<and> entry_price (hd (trades s2)) = 100 \<and>
      exit_price (hd (trades s2)) = 102 \<and> pnl (hd (trades s2)) = 20"
  by (simp add: ledger_defs Let_def)

text \<open>
  Claim C2 (average entry price of a flat ledger), evaluated on the code. In scenario A
  the Short 10 order closes the long position of 10 exactly: \<^verbatim>\<open>processOrders\<close> leaves
  through the early \<^verbatim>\<open>return\<close> of its first block, before the statement that clears the
  average entry price, so the ledger is flat with average entry price 100.
\<close>

theorem exact_close_keeps_avg_entry:
  "let s0 = Simulator_init 10000 0 0;
       s1 = processOrders (placeOrder s0 Long 10) (bar1\<lparr>open := 100\<rparr>);
       s2 = processOrders (placeOrder s1 Short 10) (bar2\<lparr>open := 102\<rparr>)
   in position s2 = 0 \<and> avg_entry s2 = 100 \<and> \<not> has_pending s2"
  by (simp add: ledger_defs Let_def)

text \<open>
  Claim C3 (commission of the open/add leg), evaluated on the code. With initial cash
  10000 and commission 1, a Long 5 order on a bar opening at 100 leaves cash
  10000 - 500 + 1 = 9501: the statement \<^verbatim>\<open>cash_ -= cost - commission_\<close> adds the
  commission to cash. A following Short 10 order on a bar opening at 105 closes the 5
  (cash 9501 + 25 - 1 = 9525, the close leg subtracts the commission) and opens a short
  of 5 (cash 9525 + 525 + 1 = 10051).
\<close>

theorem open_leg_adds_commission:
  "let s0 = Simulator_init 10000 1 0;
       s1 = processOrders (placeOrder s0 Long 5) (bar1\<lparr>open := 100\<rparr>);
       s2 = processOrders (placeOrder s1 Short 10) (bar2\<lparr>open := 105\<rparr>)
   in position s1 = 5 \<and> cash s1 = 9501 \<and>
      position s2 = - 5 \<and> cash s2 = 10051 \<and> pnl (hd (trades s2)) = 24"
  by (simp add: ledger_defs Let_def)

text \<open>
  Claim C9 (equity stored by the close/reduce leg). When \<^verbatim>\<open>processOrders\<close> runs its
  close/reduce leg, the equity it stores is the cash after that leg plus the position
  from before the reduction times the fill price, and nothing later in the call changes
  it. So after a fill that closes the position exactly, the position is 0, the stored
  equity is cash + (old position) * open, and it differs from cash + position * open
  whenever the open is not 0. The loop of \<^verbatim>\<open>run\<close> takes its ruin exit at bar \<open>i\<close>
  exactly when cash + position * open, recomputed from the ledger after
  \<^verbatim>\<open>processOrders\<close>, is at most 0 (the exit is the one that calls \<^verbatim>\<open>updateEquity\<close>
  without calling \<^verbatim>\<open>onBar\<close>): the stored equity plays no part in that check.
\<close>

theorem close_leg_equity_uses_position_before:
  assumes "has_pending s"
    and "(side (pending_order s) = Long \<and> position s < 0) \<or>
         (side (pending_order s) = Short \<and> position s > 0)"
  shows "equity (processOrders s bar) =
           cash s
           + ((if side (pending_order s) = Long
               then (avg_entry s - open bar) * min (quantity (pending_order s)) \<bar>position s\<bar>
               else (open bar - avg_entry s) * min (quantity (pending_order s)) \<bar>position s\<bar>)
              - commission s)
           + position s * open bar \<and>
         (quantity (pending_order s) = \<bar>position s\<bar> \<longrightarrow>
            position (processOrders s bar) = 0 \<and>
            equity (processOrders s bar) = cash (processOrders s bar) + position s * open bar \<and>
            (open bar \<noteq> 0 \<longrightarrow>
               equity (processOrders s bar) \<noteq>
                 cash (processOrders s bar) + position (processOrders s bar) * open bar)) \<and>
         (i < length (data bt) \<longrightarrow>
            ((calls (fst (bar_step strat i peak_equity bt)) =
                calls bt @ [ProcessOrders i, UpdateEquity i]) \<longleftrightarrow>
             cash (processOrders (sim bt) (data bt ! i))
               + position (processOrders (sim bt) (data bt ! i)) * open (data bt ! i) \<le> 0))"
proof -
  have stored: "equity (processOrders s bar) =
           cash s
           + ((if side (pending_order s) = Long
               then (avg_entry s - open bar) * min (quantity (pending_order s)) \<bar>position s\<bar>
               else (open bar - avg_entry s) * min (quantity (pending_order s)) \<bar>position s\<bar>)
              - commission s)
           + position s * open bar"
    by (rule processOrders_close_leg_equity [OF assms])
  have exact: "position (processOrders s bar) = 0 \<and>
      equity (processOrders s bar) = cash (processOrders s bar) + position s * open bar \<and>
      (open bar \<noteq> 0 \<longrightarrow>
         equity (processOrders s bar) \<noteq>
           cash (processOrders s bar) + position (processOrders s bar) * open bar)"
    if full: "quantity (pending_order s) = \<bar>position s\<bar>"
  proof -
    have closed: "processOrders s bar = fst (close_or_reduce s bar)"
      by (simp add: processOrders_opposite [OF assms] close_or_reduce_exact(1) [OF full])
    have flat: "position (processOrders s bar) = 0"
      by (simp add: closed close_or_reduce_exact(2) [OF full])
    have eq: "equity (processOrders s bar) = cash (processOrders s bar) + position s * open bar"
      unfolding stored by (simp add: closed close_or_reduce_exact(3) [OF full])
    have "position s \<noteq> 0"
      using assms(2) by auto
    then show ?thesis
      using flat eq by simp
  qed
  have check: "(calls (fst (bar_step strat i peak_equity bt)) =
             calls bt @ [ProcessOrders i, UpdateEquity i]) \<longleftrightarrow>
          cash (processOrders (sim bt) (data bt ! i))
            + position (processOrders (sim bt) (data bt ! i)) * open (data bt ! i) \<le> 0"
  proof (cases "cash (processOrders (sim bt) (data bt ! i))
            + position (processOrders (sim bt) (data bt ! i)) * open (data bt ! i) \<le> 0")
    case True
    then show ?thesis by (simp add: bar_step_ruin)
  next
    case False
    obtain st' placed where hook: "onBar strat (data bt ! i)
           (BacktestContext (processOrders (sim bt) (data bt ! i)) (data bt) i)
           (strategy_state bt) = (st', placed)"
      by (cases "onBar strat (data bt ! i)
           (BacktestContext (processOrders (sim bt) (data bt ! i)) (data bt) i)
           (strategy_state bt)")
    have "calls (fst (bar_step strat i peak_equity bt)) =
            calls bt @ [ProcessOrders i, OnBar i, UpdateEquity i]"
      by (simp add: bar_step_no_ruin [OF False hook] Let_def)
    then show ?thesis using False by simp
  qed
  show ?thesis
    using stored exact check by blast
qed

theorem close_leg_equity_uses_position_before_witness:
  "has_pending short_ledger \<and> side (pending_order short_ledger) = Long \<and>
   position short_ledger = - 10 \<and> quantity (pending_order short_ledger) = 10 \<and>
   position (processOrders short_ledger (example_bar ''09:32'' 150 150)) = 0 \<and>
   equity (processOrders short_ledger (example_bar ''09:32'' 150 150)) = - 900 \<and>
   equity (processOrders short_ledger (example_bar ''09:32'' 150 150)) \<noteq>
     cash (processOrders short_ledger (example_bar ''09:32'' 150 150))
     + position (processOrders short_ledger (example_bar ''09:32'' 150 150))
       * open (example_bar ''09:32'' 150 150) \<and>
   0 < cash (processOrders short_ledger (example_bar ''09:32'' 150 150))
       + position (processOrders short_ledger (example_bar ''09:32'' 150 150))
         * open (example_bar ''09:32'' 150 150) \<and>
   calls (fst (bar_step short_then_cover 2 100 squeeze_backtester)) \<noteq>
     calls squeeze_backtester @ [ProcessOrders 2, UpdateEquity 2]"
proof -
  have pending: "has_pending short_ledger"
    and opposite: "(side (pending_order short_ledger) = Long \<and> position short_ledger < 0) \<or>
         (side (pending_order short_ledger) = Short \<and> position short_ledger > 0)"
    using short_ledger_state by simp_all
  have bar: "open (example_bar ''09:32'' 150 150) = 150"
    by (simp add: example_bar_def)
  have third: "data squeeze_backtester ! 2 = example_bar ''09:32'' 150 150"
    "sim squeeze_backtester = short_ledger" "length (data squeeze_backtester) = 4"
    by (simp_all add: squeeze_backtester_def)
  show ?thesis
    using close_leg_equity_uses_position_before
        [where bar = "example_bar ''09:32'' 150 150" and strat = short_then_cover and i = 2
           and peak_equity = 100 and bt = squeeze_backtester, OF pending opposite]
      short_ledger_state
    by (simp add: bar third)
qed

section \<open>Properties of the orchestrator\<close>

text \<open>
  Claim C6 (immediate-ruin check). Take any run whose data loaded, and any bar index \<open>i\<close>
  whose iteration the loop reaches, in state \<open>bti\<close>. If the open-based equity
  cash + position * open of bar \<open>i\<close>, taken after \<^verbatim>\<open>processOrders\<close> at bar \<open>i\<close>, is at
  most 0, then the run returns with \<^verbatim>\<open>stoppedEarly()\<close> true and reason ``no more
  equity''. From the head of iteration \<open>i\<close> on it makes exactly the calls
  \<^verbatim>\<open>processOrders\<close> on bar \<open>i\<close>, \<^verbatim>\<open>updateEquity\<close> on bar \<open>i\<close> (once, adding one point to
  the equity curve) and \<^verbatim>\<open>onEnd\<close>: no \<^verbatim>\<open>onBar\<close> for bar \<open>i\<close> and no call for a later bar.
\<close>

theorem ruin_check_stops_run:
  assumes "ok" and "loaded \<noteq> []"
    and "loop_head strat (bt_initial_cash bt)
           (run_start strat aggregateBars (bt\<lparr>data := loaded\<rparr>)) i = Some (peak_equity, bti)"
    and "i < length (data bti)"
    and "cash (processOrders (sim bti) (data bti ! i))
           + position (processOrders (sim bti) (data bti ! i)) * open (data bti ! i) \<le> 0"
  shows "run strat (ok, loaded) aggregateBars bt =
           (True, run_end strat
              (bti\<lparr>bar_index := i,
                   sim := updateEquity (processOrders (sim bti) (data bti ! i)) (data bti ! i),
                   stopped_early := True,
                   stop_reason := ''no more equity'',
                   calls := calls bti @ [ProcessOrders i, UpdateEquity i]\<rparr>)) \<and>
         stopped_early (snd (run strat (ok, loaded) aggregateBars bt)) \<and>
         stop_reason (snd (run strat (ok, loaded) aggregateBars bt)) = ''no more equity'' \<and>
         calls (snd (run strat (ok, loaded) aggregateBars bt)) =
           calls bti @ [ProcessOrders i, UpdateEquity i, OnEnd] \<and>
         equity_curve (sim (snd (run strat (ok, loaded) aggregateBars bt))) =
           equity_curve (sim bti) @
             [cash (processOrders (sim bti) (data bti ! i))
                + position (processOrders (sim bti) (data bti ! i)) * close (data bti ! i)]"
proof -
  let ?stopped = "bti\<lparr>bar_index := i,
                   sim := updateEquity (processOrders (sim bti) (data bti ! i)) (data bti ! i),
                   stopped_early := True,
                   stop_reason := ''no more equity'',
                   calls := calls bti @ [ProcessOrders i, UpdateEquity i]\<rparr>"
  have "run_loop strat 0 (bt_initial_cash bt)
          (run_start strat aggregateBars (bt\<lparr>data := loaded\<rparr>)) =
        run_loop strat i peak_equity bti"
    by (rule loop_head_run_loop [OF assms(3)])
  also have "\<dots> = ?stopped"
    using assms(4) by (simp add: run_loop_stop bar_step_ruin [OF assms(5)])
  finally have result: "run strat (ok, loaded) aggregateBars bt = (True, run_end strat ?stopped)"
    using assms(1,2) by (simp add: run_loaded)
  show ?thesis
    unfolding result
    by (simp add: run_end_frame updateEquity_fields processOrders_equity_curve)
qed

theorem ruin_check_stops_run_witness:
  "stopped_early (snd (run short_and_hold (True, gap_up_bars) id (Backtester_init () 100 0 0))) \<and>
   stop_reason (snd (run short_and_hold (True, gap_up_bars) id (Backtester_init () 100 0 0)))
     = ''no more equity'' \<and>
   calls (snd (run short_and_hold (True, gap_up_bars) id (Backtester_init () 100 0 0))) =
     [OnStart, ProcessOrders 0, OnBar 0, UpdateEquity 0, ProcessOrders 1, OnBar 1, UpdateEquity 1,
      ProcessOrders 2, UpdateEquity 2, OnEnd] \<and>
   equity_curve (sim (snd (run short_and_hold (True, gap_up_bars) id (Backtester_init () 100 0 0))))
     = [100, 100, - 900]"
proof -
  let ?bt = "Backtester_init () 100 0 0 :: unit Backtester"
  from gap_up_run_head obtain peak_equity bti where
    head: "loop_head short_and_hold (bt_initial_cash ?bt)
            (run_start short_and_hold id (?bt\<lparr>data := gap_up_bars\<rparr>)) (Suc (Suc 0))
            = Some (peak_equity, bti)" and
    more: "Suc (Suc 0) < length (data bti)" and
    ruin: "cash (processOrders (sim bti) (data bti ! Suc (Suc 0)))
            + position (processOrders (sim bti) (data bti ! Suc (Suc 0)))
              * open (data bti ! Suc (Suc 0)) \<le> 0" and
    log: "calls bti = [OnStart, ProcessOrders 0, OnBar 0, UpdateEquity 0,
                       ProcessOrders 1, OnBar 1, UpdateEquity 1]" and
    curve: "equity_curve (sim bti) = [100, 100]" and
    final: "cash (processOrders (sim bti) (data bti ! Suc (Suc 0)))
            + position (processOrders (sim bti) (data bti ! Suc (Suc 0)))
              * close (data bti ! Suc (Suc 0)) = - 900"
    by blast
  have loaded: "gap_up_bars \<noteq> []"
    by (simp add: gap_up_bars_def)
  show ?thesis
    using ruin_check_stops_run [OF TrueI loaded head more ruin, THEN conjunct2] log curve final
    by (simp add: numeral_2_eq_2)
qed



text \<open>
  Claim C7 (length of the equity curve). Every \<^verbatim>\<open>updateEquity\<close> call appends exactly one
  value to the equity curve. After a run that loaded its data, started from a freshly
  constructed orchestrator, the length of the curve is the number of bars processed (and
  the number of \<^verbatim>\<open>updateEquity\<close> calls made); it is at most the number of bars, and less
  only if the run stopped early; and when the run stopped early the curve is not empty,
  its length is the index of the stopping bar plus one, and its last point is the equity
  cash + position * close at the stopping bar (whose index is that of the last bar the
  context was set to).
\<close>

theorem equity_curve_length:
  assumes "ok" and "loaded \<noteq> []"
  shows "equity_curve (updateEquity s bar) = equity_curve s @ [cash s + position s * close bar] \<and>
    (let r = snd (run strat (ok, loaded) aggregateBars
                    (Backtester_init strategy_init cash_init commission_init slippage_init));
         curve = equity_curve (sim r)
     in length curve = bars_processed (calls r) \<and>
        length curve = updateEquity_calls (calls r) \<and>
        length curve \<le> length (data r) \<and>
        (length curve < length (data r) \<longrightarrow> stopped_early r) \<and>
        (stopped_early r \<longrightarrow>
           curve \<noteq> [] \<and> length curve = Suc (bar_index r) \<and> bar_index r < length (data r) \<and>
           last curve = cash (sim r) + position (sim r) * close (data r ! bar_index r)))"
proof -
  let ?bt = "Backtester_init strategy_init cash_init commission_init slippage_init"
  let ?start = "run_start strat aggregateBars (?bt\<lparr>data := loaded\<rparr>)"
  let ?loop = "run_loop strat 0 (bt_initial_cash ?bt) ?start"
  have result: "run strat (ok, loaded) aggregateBars ?bt = (True, run_end strat ?loop)"
    using assms by (simp add: run_loaded)
  have start: "equity_curve (sim ?start) = []" "bars_processed (calls ?start) = 0"
    "updateEquity_calls (calls ?start) = 0" "\<not> stopped_early ?start"
    by (simp_all add: run_start_frame Backtester_init_def Simulator_init_def
        bars_processed_def updateEquity_calls_def)
  have counts: "length (equity_curve (sim ?loop)) = bars_processed (calls ?loop)"
    "length (equity_curve (sim ?loop)) = updateEquity_calls (calls ?loop)"
    using run_loop_counts [of strat 0 "bt_initial_cash ?bt" ?start] start by simp_all
  have bound: "length (equity_curve (sim ?loop)) \<le> length (data ?loop)"
    "length (equity_curve (sim ?loop)) < length (data ?loop) \<longrightarrow> stopped_early ?loop"
    using run_loop_curve_bound [of strat 0 "bt_initial_cash ?bt" ?start] start
    by (simp_all add: run_loop_data)
  have stopped: "stopped_early ?loop \<longrightarrow>
      equity_curve (sim ?loop) \<noteq> [] \<and>
      length (equity_curve (sim ?loop)) = Suc (bar_index ?loop) \<and>
      last (equity_curve (sim ?loop)) =
        cash (sim ?loop) + position (sim ?loop) * close (data ?loop ! bar_index ?loop)"
    using run_loop_stopped [of strat 0 "bt_initial_cash ?bt" ?start] start
    by (simp add: run_loop_data)
  have range: "stopped_early ?loop \<longrightarrow> bar_index ?loop < length (data ?loop)"
    using stopped bound(1) by auto
  have tail: "bars_processed (cs @ [OnEnd]) = bars_processed cs"
    "updateEquity_calls (cs @ [OnEnd]) = updateEquity_calls cs" for cs
    by (simp_all add: bars_processed_def updateEquity_calls_def)
  show ?thesis
    unfolding result Let_def
    using counts bound stopped range
    by (simp add: run_end_frame tail updateEquity_fields)
qed

theorem equity_curve_length_witness:
  "(let r = snd (run short_and_hold (True, gap_up_bars) id (Backtester_init () 100 0 0));
        curve = equity_curve (sim r)
    in length curve = bars_processed (calls r) \<and>
       length curve = updateEquity_calls (calls r) \<and>
       length curve < length (data r) \<and> stopped_early r \<and>
       length curve = Suc (bar_index r) \<and> bar_index r < length (data r) \<and>
       last curve = cash (sim r) + position (sim r) * close (data r ! bar_index r))"
proof -
  have loaded: "gap_up_bars \<noteq> []"
    by (simp add: gap_up_bars_def)
  show ?thesis
    using equity_curve_length
        [where strat = short_and_hold and aggregateBars = id and strategy_init = "()"
           and cash_init = 100 and commission_init = 0 and slippage_init = 0,
         OF TrueI loaded, THEN conjunct2]
      gap_up_run_result
    by (auto simp: Let_def)
qed



end
